theory Spec2Isabelle
  imports Complex_Main
begin

section \<open>PointText: a point-anchored, multi-line text item\<close>

text \<open>
  A shallow embedding of \<^verbatim>\<open>src/text/PointText.js\<close>. JavaScript numbers are
  modelled as \<^typ>\<open>real\<close>: the arithmetic of the source is read as exact arithmetic,
  without the rounding, the infinities and the NaN of IEEE doubles. The properties of
  the bounds are therefore stated as the expressions the source computes, operation for
  operation, and as inequalities that rounding to nearest keeps; none of them is an
  identity that holds of the exact sums only. Strings are
  \<^typ>\<open>string\<close>, the array \<^verbatim>\<open>_lines\<close> is a list, and its \<^verbatim>\<open>length\<close> a \<^typ>\<open>nat\<close>.
  Identifiers of the source that start with an underscore lose it
  (\<^verbatim>\<open>_getMeasuredTextSize\<close> is \<open>getMeasuredTextSize\<close>).
\<close>

subsection \<open>Geometry\<close>

record Point =
  pt_x :: real
  pt_y :: real

record Rectangle =
  rect_x :: real
  rect_y :: real
  rect_width :: real
  rect_height :: real

text \<open>The affine transform of an item: the linear part \<open>a b c d\<close> and the translation.\<close>

record Matrix =
  m_a :: real
  m_b :: real
  m_c :: real
  m_d :: real
  m_tx :: real
  m_ty :: real

subsection \<open>Style and item\<close>

text \<open>
  The style object is a collaborator of the item; the record holds what its accessors
  return: \<open>fontStyle\<close> is the string of \<^verbatim>\<open>getFontStyle()\<close>, \<open>leading\<close> the number of
  \<^verbatim>\<open>getLeading()\<close>, \<open>justification\<close> the string of \<^verbatim>\<open>getJustification()\<close> (any string
  can be stored there), \<open>hasFill\<close> and \<open>hasStroke\<close> the results of the methods of the
  same names. The item's own properties \<^verbatim>\<open>this.strokeWidth\<close>, \<^verbatim>\<open>this.fontSize\<close>,
  \<^verbatim>\<open>this.font\<close> and \<^verbatim>\<open>this.leading\<close> read the same style.
\<close>

record Style =
  fontStyle :: string
  fontFamily :: string
  fontSize :: real
  leading :: real
  justification :: string
  strokeWidth :: real
  hasFill :: bool
  hasStroke :: bool

record PointText =
  content :: string
  lines :: "string list"
  matrix :: Matrix
  style :: Style

text \<open>
  The view measures the width of a paragraph with font metrics:
  \<^verbatim>\<open>this.getView().getTextWidth(fontStyle, lines)\<close>. The method belongs to the view,
  so it is a parameter of every function that calls it.
\<close>

type_synonym View = "string \<Rightarrow> string list \<Rightarrow> real"

subsection \<open>Bounds from font metrics\<close>

definition getMeasuredTextSize :: "View \<Rightarrow> PointText \<Rightarrow> Rectangle" where
  "getMeasuredTextSize getTextWidth this =
     (let style' = style this;
          lines' = lines this;
          numLines = length lines';
          justification' = justification style';
          leading' = leading style';
          width = getTextWidth (fontStyle style') lines';
          x = 0;
          x = (if justification' \<noteq> ''left''
               then x - width / (if justification' = ''center'' then 2 else 1)
               else x)
      in \<lparr>rect_x = x,
          rect_y = (if numLines \<noteq> 0 then - 0.75 * leading' else 0),
          rect_width = width,
          rect_height = real numLines * leading'\<rparr>)"

subsection \<open>Bounds from a rendering\<close>

text \<open>
  \<open>getDrawnTextSize\<close> builds an SVG text element with one \<^verbatim>\<open>tspan\<close> per line, puts it
  in a hidden \<^verbatim>\<open>span\<close>, attaches the span to \<^verbatim>\<open>document.body\<close>, asks the browser for
  the bounding box and detaches the span in a \<^verbatim>\<open>finally\<close> block. The browser is
  outside the program: what \<^verbatim>\<open>svg.getBBox()\<close> answers, or that it throws, is the
  parameter \<open>getBBox\<close>, a function of the document and of the measured element.
\<close>

datatype error = TypeError | NotFoundError | HostError string

type_synonym 'a result = "error + 'a"

text \<open>An attribute value is a literal string or a number followed by \<^verbatim>\<open>px\<close>.\<close>

datatype AttrValue = Str string | Px real

record Tspan =
  tspan_x :: string
  tspan_dy :: AttrValue
  textContent :: string

record TextElement =
  xml_space :: string
  tspans :: "Tspan list"

record Svg =
  svg_version :: string
  svg_text :: TextElement

record SpanStyle =
  visibility :: string
  whiteSpace :: string
  css_fontSize :: AttrValue
  css_fontFamily :: string
  lineHeight :: "real option"

text \<open>
  The hidden \<^verbatim>\<open>span\<close>. Only this element is ever a child of the body, so only it has
  an identity in the model.
\<close>

record Element =
  elt_id :: nat
  elt_style :: SpanStyle
  elt_children :: "Svg list"

record BBox =
  bbox_x :: real
  bbox_y :: real
  bbox_width :: real
  bbox_height :: real

text \<open>
  The document: the children of \<^verbatim>\<open>document.body\<close> by identity (\<open>None\<close> when the
  document has no body, where \<^verbatim>\<open>document.body\<close> is \<^verbatim>\<open>null\<close>), and the identity that
  the next created element receives.
\<close>

record Document =
  body :: "nat list option"
  next_node :: nat

type_synonym Host = "Document \<Rightarrow> Element \<Rightarrow> BBox result"

definition createElement :: "Document \<Rightarrow> nat \<times> Document" where
  "createElement document =
     (next_node document, document\<lparr>next_node := Suc (next_node document)\<rparr>)"

text \<open>
  \<^verbatim>\<open>document.body.appendChild(element)\<close>: a \<^verbatim>\<open>TypeError\<close> on a \<^verbatim>\<open>null\<close> body; a node
  that is a child already is moved to the end.
\<close>

definition body_appendChild :: "nat \<Rightarrow> Document \<Rightarrow> unit result \<times> Document" where
  "body_appendChild e document =
     (case body document of
        None \<Rightarrow> (Inl TypeError, document)
      | Some children \<Rightarrow>
          (Inr (), document\<lparr>body := Some (filter (\<lambda>c. c \<noteq> e) children @ [e])\<rparr>))"

text \<open>
  \<^verbatim>\<open>document.body.removeChild(element)\<close>: a \<^verbatim>\<open>TypeError\<close> on a \<^verbatim>\<open>null\<close> body, a
  \<^verbatim>\<open>NotFoundError\<close> when the element is not a child of the body.
\<close>

definition body_removeChild :: "nat \<Rightarrow> Document \<Rightarrow> unit result \<times> Document" where
  "body_removeChild e document =
     (case body document of
        None \<Rightarrow> (Inl TypeError, document)
      | Some children \<Rightarrow>
          if e \<in> set children
          then (Inr (), document\<lparr>body := Some (remove1 e children)\<rparr>)
          else (Inl NotFoundError, document))"

text \<open>
  \<^verbatim>\<open>try { ... } finally { ... }\<close> over a state: the \<^verbatim>\<open>finally\<close> block runs on the
  state the \<^verbatim>\<open>try\<close> block left, whether that block threw or not; an error thrown by
  the \<^verbatim>\<open>finally\<close> block replaces the outcome of the \<^verbatim>\<open>try\<close> block.
\<close>

definition try_finally ::
  "('s \<Rightarrow> 'a result \<times> 's) \<Rightarrow> ('s \<Rightarrow> unit result \<times> 's) \<Rightarrow> 's \<Rightarrow> 'a result \<times> 's" where
  "try_finally try_block finally_block s =
     (let (r, s1) = try_block s;
          (f, s2) = finally_block s1
      in case f of Inl e \<Rightarrow> (Inl e, s2) | Inr _ \<Rightarrow> (r, s2))"

text \<open>The loop over the lines that creates the \<^verbatim>\<open>tspan\<close> nodes, \<open>i\<close> from \<open>0\<close> to \<open>numLines - 1\<close>.\<close>

definition tspanNodes :: "string list \<Rightarrow> real \<Rightarrow> Tspan list" where
  "tspanNodes lines' leading' =
     map (\<lambda>i. \<lparr>tspan_x = ''0'',
               tspan_dy = (if i = 0 then Str ''0'' else Px leading'),
               textContent = lines' ! i\<rparr>)
         [0 ..< length lines']"

text \<open>
  The SVG element the source builds. The namespace attribute \<^verbatim>\<open>xmlns\<close> is a constant
  of \<^verbatim>\<open>SvgElement\<close> and is left out.
\<close>

definition svgOf :: "PointText \<Rightarrow> Svg" where
  "svgOf this =
     \<lparr>svg_version = ''1.1'',
      svg_text = \<lparr>xml_space = ''preserve'',
                  tspans = tspanNodes (lines this) (leading (style this))\<rparr>\<rparr>"

text \<open>
  The style of the hidden \<^verbatim>\<open>span\<close>. The quotient \<^verbatim>\<open>this.leading / this.fontSize\<close> is
  not a finite number when the font size is \<open>0\<close>; the model has \<open>None\<close> there.
\<close>

definition spanStyleOf :: "PointText \<Rightarrow> SpanStyle" where
  "spanStyleOf this =
     \<lparr>visibility = ''hidden'',
      whiteSpace = ''pre'',
      css_fontSize = Px (fontSize (style this)),
      css_fontFamily = fontFamily (style this),
      lineHeight = (if fontSize (style this) = 0 then None
                    else Some (leading (style this) / fontSize (style this)))\<rparr>"

text \<open>The hidden \<^verbatim>\<open>span\<close> with its style and, as its child, the SVG element.\<close>

definition hiddenSpan :: "PointText \<Rightarrow> nat \<Rightarrow> Element" where
  "hiddenSpan this element_id =
     \<lparr>elt_id = element_id, elt_style = spanStyleOf this, elt_children = [svgOf this]\<rparr>"

text \<open>
  The \<^verbatim>\<open>try\<close> block: \<^verbatim>\<open>element.appendChild(svg)\<close> (the element passed in has the SVG as
  its child already: appending to a detached element changes nothing else),
  \<^verbatim>\<open>document.body.appendChild(element)\<close>, then \<^verbatim>\<open>bbox = svg.getBBox()\<close>.
\<close>

definition measure_bbox :: "Host \<Rightarrow> Element \<Rightarrow> Document \<Rightarrow> BBox result \<times> Document" where
  "measure_bbox getBBox element document =
     (case body_appendChild (elt_id element) document of
        (Inl e, document) \<Rightarrow> (Inl e, document)
      | (Inr _, document) \<Rightarrow> (getBBox document element, document))"

definition getDrawnTextSize ::
  "View \<Rightarrow> Host \<Rightarrow> PointText \<Rightarrow> Document \<Rightarrow> Rectangle result \<times> Document" where
  "getDrawnTextSize getTextWidth getBBox this document =
     (let style' = style this;
          lines' = lines this;
          numLines = length lines';
          leading' = leading style';
          justification' = justification style';
          (element_id, document) = createElement document;
          element = hiddenSpan this element_id;
          (measured, document) =
             try_finally (measure_bbox getBBox element)
                         (body_removeChild element_id) document
      in case measured of
           Inl e \<Rightarrow> (Inl e, document)
         | Inr bbox \<Rightarrow>
             (let halfStrokeWidth = strokeWidth style' / 2;
                  width = bbox_width bbox + (halfStrokeWidth * 2);
                  height = bbox_height bbox + (halfStrokeWidth * 2);
                  x = bbox_x bbox - halfStrokeWidth;
                  y = bbox_y bbox - halfStrokeWidth;
                  x = (if justification' \<noteq> ''left''
                       then (let eltWidth = getTextWidth (fontStyle style') lines'
                             in x - eltWidth / (if justification' = ''center'' then 2 else 1))
                       else x)
              in (Inr \<lparr>rect_x = x, rect_y = y, rect_width = width + 1,
                       rect_height = max height (real numLines * leading')\<rparr>,
                  document)))"

text \<open>
  The measurement step by itself: what the \<^verbatim>\<open>try\<close> block of \<open>getDrawnTextSize\<close>
  yields on a document, the bounding box or the error thrown.
\<close>

definition measurement_step :: "Host \<Rightarrow> PointText \<Rightarrow> Document \<Rightarrow> BBox result" where
  "measurement_step getBBox this document =
     (let (element_id, document) = createElement document
      in fst (measure_bbox getBBox (hiddenSpan this element_id) document))"

text \<open>The identities of the children of the body; none when there is no body.\<close>

definition attached :: "Document \<Rightarrow> nat set" where
  "attached document = (case body document of None \<Rightarrow> {} | Some children \<Rightarrow> set children)"

subsection \<open>The anchor point\<close>

text \<open>
  Items live in a store and are known by reference; \<^verbatim>\<open>this\<close> is the item a reference
  stands for. A \<^verbatim>\<open>LinkedPoint\<close> carries its coordinates, the reference of its owner and
  the name of the owner's setter.
\<close>

type_synonym ref = nat

type_synonym store = "ref \<rightharpoonup> PointText"

record LinkedPoint =
  lp_x :: real
  lp_y :: real
  lp_owner :: ref
  lp_setter :: string

text \<open>Modelled from the spec: \<^verbatim>\<open>Matrix.getTranslation\<close>, which is not in the source
  file. The spec's transform has \<^verbatim>\<open>getTranslation() -> Point\<close>, and the translation
  component of the transform is the anchor point.\<close>

definition getTranslation :: "Matrix \<Rightarrow> Point" where
  "getTranslation m = \<lparr>pt_x = m_tx m, pt_y = m_ty m\<rparr>"

text \<open>Modelled from the spec: \<^verbatim>\<open>Point.subtract\<close>, which is not in the source file.
  The spec writes \<^verbatim>\<open>delta = p - currentTranslation\<close>.\<close>

definition subtract :: "Point \<Rightarrow> Point \<Rightarrow> Point" where
  "subtract p q = \<lparr>pt_x = pt_x p - pt_x q, pt_y = pt_y p - pt_y q\<rparr>"

text \<open>Modelled from the spec: \<^verbatim>\<open>Item.translate\<close>, which is not in the source file.
  The spec's \<^verbatim>\<open>translateBy(delta)\<close> applies a relative translation of \<open>delta\<close> to the
  item's transform and does not discard the rotation and scale present in it: the
  translation component moves by \<open>delta\<close>, the linear part stays.\<close>

definition translate :: "Point \<Rightarrow> PointText \<Rightarrow> PointText" where
  "translate delta this =
     this\<lparr>matrix := (matrix this)\<lparr>m_tx := m_tx (matrix this) + pt_x delta,
                                      m_ty := m_ty (matrix this) + pt_y delta\<rparr>\<rparr>"

definition getPoint :: "ref \<Rightarrow> PointText \<Rightarrow> LinkedPoint" where
  "getPoint self this =
     (let point = getTranslation (matrix this)
      in \<lparr>lp_x = pt_x point, lp_y = pt_y point, lp_owner = self, lp_setter = ''setPoint''\<rparr>)"

definition setPoint :: "Point \<Rightarrow> PointText \<Rightarrow> PointText" where
  "setPoint point this = translate (subtract point (getTranslation (matrix this))) this"

text \<open>Modelled from the spec: the setters of \<^verbatim>\<open>LinkedPoint\<close>, which is not in the
  source file. By the spec a point returned by \<open>getPoint\<close>, when subsequently set, routes
  back through \<open>setPoint\<close>: the setter stores the coordinate in the point and calls the
  owner's setter with the point. \<open>setPoint\<close> is the only setter this item links.\<close>

definition notify_owner :: "LinkedPoint \<Rightarrow> store \<Rightarrow> store" where
  "notify_owner lp s =
     (case s (lp_owner lp) of
        None \<Rightarrow> s
      | Some this \<Rightarrow>
          if lp_setter lp = ''setPoint''
          then s(lp_owner lp \<mapsto> setPoint \<lparr>pt_x = lp_x lp, pt_y = lp_y lp\<rparr> this)
          else s)"

definition LinkedPoint_setX :: "real \<Rightarrow> LinkedPoint \<Rightarrow> store \<Rightarrow> LinkedPoint \<times> store" where
  "LinkedPoint_setX v lp s = (let lp = lp\<lparr>lp_x := v\<rparr> in (lp, notify_owner lp s))"

definition LinkedPoint_setY :: "real \<Rightarrow> LinkedPoint \<Rightarrow> store \<Rightarrow> LinkedPoint \<times> store" where
  "LinkedPoint_setY v lp s = (let lp = lp\<lparr>lp_y := v\<rparr> in (lp, notify_owner lp s))"

subsection \<open>Drawing\<close>

text \<open>
  The drawing surface is the canvas context. Its state keeps the three properties the
  source assigns and, in \<open>ops\<close>, every operation the source performs on it, in order.
  A paint operation records the shadow colour that is current when it paints: that is
  the shadow the canvas draws under it.
\<close>

datatype SurfaceOp =
    SetShadowColor string
  | SetFont string
  | SetTextAlign string
  | FillText string real real string
  | StrokeText string real real string
  | Translate real real

record Context2D =
  shadowColor :: string
  font :: string
  textAlign :: string
  ops :: "SurfaceOp list"

definition set_shadowColor :: "string \<Rightarrow> Context2D \<Rightarrow> Context2D" where
  "set_shadowColor c ctx = ctx\<lparr>shadowColor := c, ops := ops ctx @ [SetShadowColor c]\<rparr>"

definition set_font :: "string \<Rightarrow> Context2D \<Rightarrow> Context2D" where
  "set_font f ctx = ctx\<lparr>font := f, ops := ops ctx @ [SetFont f]\<rparr>"

definition set_textAlign :: "string \<Rightarrow> Context2D \<Rightarrow> Context2D" where
  "set_textAlign a ctx = ctx\<lparr>textAlign := a, ops := ops ctx @ [SetTextAlign a]\<rparr>"

definition fillText :: "string \<Rightarrow> real \<Rightarrow> real \<Rightarrow> Context2D \<Rightarrow> Context2D" where
  "fillText line x y ctx = ctx\<lparr>ops := ops ctx @ [FillText line x y (shadowColor ctx)]\<rparr>"

definition strokeText :: "string \<Rightarrow> real \<Rightarrow> real \<Rightarrow> Context2D \<Rightarrow> Context2D" where
  "strokeText line x y ctx = ctx\<lparr>ops := ops ctx @ [StrokeText line x y (shadowColor ctx)]\<rparr>"

definition ctx_translate :: "real \<Rightarrow> real \<Rightarrow> Context2D \<Rightarrow> Context2D" where
  "ctx_translate dx dy ctx = ctx\<lparr>ops := ops ctx @ [Translate dx dy]\<rparr>"

text \<open>The body of the loop of \<open>draw\<close>, for one line.\<close>

definition drawLine :: "bool \<Rightarrow> bool \<Rightarrow> real \<Rightarrow> string \<Rightarrow> string \<Rightarrow> Context2D \<Rightarrow> Context2D" where
  "drawLine hasFill' hasStroke' leading' shadowColor' line ctx =
     (let ctx = set_shadowColor shadowColor' ctx;
          ctx = (if hasFill'
                 then set_shadowColor ''rgba(0,0,0,0)'' (fillText line 0 0 ctx)
                 else ctx);
          ctx = (if hasStroke' then strokeText line 0 0 ctx else ctx)
      in ctx_translate 0 leading' ctx)"

text \<open>The loop \<^verbatim>\<open>for (var i = 0, l = lines.length; i < l; i++)\<close>, which visits the lines
  in order.\<close>

fun drawLines :: "bool \<Rightarrow> bool \<Rightarrow> real \<Rightarrow> string \<Rightarrow> string list \<Rightarrow> Context2D \<Rightarrow> Context2D" where
  "drawLines hasFill' hasStroke' leading' shadowColor' [] ctx = ctx"
| "drawLines hasFill' hasStroke' leading' shadowColor' (line # rest) ctx =
     drawLines hasFill' hasStroke' leading' shadowColor' rest
       (drawLine hasFill' hasStroke' leading' shadowColor' line ctx)"

text \<open>
  \<^verbatim>\<open>_setStyles(ctx, param, viewMatrix)\<close> is the item base's and is a parameter here; it
  sets, among others, the shadow of the item's style on the surface.
\<close>

definition draw ::
  "(Context2D \<Rightarrow> 'p \<Rightarrow> 'm \<Rightarrow> Context2D) \<Rightarrow> PointText \<Rightarrow> Context2D \<Rightarrow> 'p \<Rightarrow> 'm \<Rightarrow> Context2D" where
  "draw setStyles this ctx param viewMatrix =
     (if content this = [] then ctx
      else
        (let ctx = setStyles ctx param viewMatrix;
             lines' = lines this;
             style' = style this;
             hasFill' = hasFill style';
             hasStroke' = hasStroke style';
             leading' = leading style';
             shadowColor' = shadowColor ctx;
             ctx = set_font (fontStyle style') ctx;
             ctx = set_textAlign (justification style') ctx
         in drawLines hasFill' hasStroke' leading' shadowColor' lines' ctx))"

text \<open>
  What the rule for one line prescribes, in the spec's words: restore the ambient shadow;
  if a fill paint is set, draw the filled glyphs at the origin under that shadow and
  clear the shadow to transparent at once; if a stroke paint is set, draw the stroked
  glyphs at the origin, under no shadow when the line was filled; advance by the leading.
\<close>

definition spec_line_ops :: "bool \<Rightarrow> bool \<Rightarrow> real \<Rightarrow> string \<Rightarrow> string \<Rightarrow> SurfaceOp list" where
  "spec_line_ops hasFill' hasStroke' leading' ambient line =
     [SetShadowColor ambient]
     @ (if hasFill' then [FillText line 0 0 ambient, SetShadowColor ''rgba(0,0,0,0)''] else [])
     @ (if hasStroke'
        then [StrokeText line 0 0 (if hasFill' then ''rgba(0,0,0,0)'' else ambient)]
        else [])
     @ [Translate 0 leading']"

text \<open>A paint operation that the canvas draws a shadow under: its shadow colour is not
  the transparent one.\<close>

fun shadowed :: "SurfaceOp \<Rightarrow> bool" where
  "shadowed (FillText line x y c) = (c \<noteq> ''rgba(0,0,0,0)'')"
| "shadowed (StrokeText line x y c) = (c \<noteq> ''rgba(0,0,0,0)'')"
| "shadowed _ = False"

subsection \<open>Hit testing\<close>

record HitOptions =
  opt_fill :: bool
  opt_stroke :: bool
  hitUnfilledPaths :: bool

datatype HitResult = HitResult string ref

text \<open>
  \<^verbatim>\<open>_contains(point)\<close> is the item base's containment test and is a parameter here.
  A function that ends without \<^verbatim>\<open>return\<close> gives \<^verbatim>\<open>undefined\<close>: \<open>None\<close>.
\<close>

definition hitTestSelf ::
  "(PointText \<Rightarrow> Point \<Rightarrow> bool) \<Rightarrow> ref \<Rightarrow> PointText \<Rightarrow> Point \<Rightarrow> HitOptions \<Rightarrow> HitResult option" where
  "hitTestSelf contains self this point options =
     (if opt_fill options \<and> (hasFill (style this) \<or> hitUnfilledPaths options)
         \<and> contains this point
      then Some (HitResult ''fill'' self)
      else None)"

subsection \<open>Example items\<close>

text \<open>A one-line text in a ten-pixel font with a leading of twelve, a view that reports
  ten units for each character of the longest line, a browser that reports a box ten
  units high, a browser whose \<^verbatim>\<open>getBBox\<close> throws, and a document with two children in
  its body.\<close>

definition example_style :: Style where
  "example_style =
     \<lparr>fontStyle = ''normal 10px sans-serif'', fontFamily = ''sans-serif'', fontSize = 10,
      leading = 12, justification = ''left'', strokeWidth = 0,
      hasFill = True, hasStroke = True\<rparr>"

definition example_text :: PointText where
  "example_text =
     \<lparr>content = ''AB'', lines = [''AB''],
      matrix = \<lparr>m_a = 0, m_b = 2, m_c = - 2, m_d = 0, m_tx = 3, m_ty = 4\<rparr>,
      style = example_style\<rparr>"

definition example_view :: View where
  "example_view fontStyle' lines' = 10 * real (foldr max (map length lines') 0)"

definition example_host :: Host where
  "example_host document element =
     Inr \<lparr>bbox_x = 0, bbox_y = - 9, bbox_width = 20, bbox_height = 10\<rparr>"

definition failing_host :: Host where
  "failing_host document element = Inl (HostError ''getBBox'')"

definition example_document :: Document where
  "example_document = \<lparr>body = Some [0, 1], next_node = 2\<rparr>"

text \<open>The same text with a second line, a style setter that puts a black shadow on the
  surface, and a surface on which nothing has been drawn.\<close>

definition two_lines :: PointText where
  "two_lines = example_text\<lparr>content := ''AB\<newline>CD'', lines := [''AB'', ''CD'']\<rparr>"

definition example_setStyles :: "Context2D \<Rightarrow> unit \<Rightarrow> unit \<Rightarrow> Context2D" where
  "example_setStyles ctx param viewMatrix = set_shadowColor ''black'' ctx"

definition example_ctx :: Context2D where
  "example_ctx =
     \<lparr>shadowColor = ''rgba(0,0,0,0)'', font = ''10px sans-serif'', textAlign = ''start'',
      ops = []\<rparr>"

section \<open>Properties\<close>

subsection \<open>The measurement step and its outcome\<close>

lemmas example_defs = example_text_def example_style_def example_view_def example_host_def
  failing_host_def example_document_def

lemma elt_id_hiddenSpan [simp]: "elt_id (hiddenSpan this i) = i"
  by (simp add: hiddenSpan_def)

text \<open>The measurement step fails without a body; with one, it is the browser's answer on
  the document that has the hidden element as the last child of its body.\<close>

lemma measurement_step_cases:
  "measurement_step getBBox this document =
     (case body document of
        None \<Rightarrow> Inl TypeError
      | Some children \<Rightarrow>
          getBBox (document\<lparr>next_node := Suc (next_node document),
                     body := Some (filter (\<lambda>c. c \<noteq> next_node document) children
                                   @ [next_node document])\<rparr>)
                  (hiddenSpan this (next_node document)))"
  by (simp add: measurement_step_def createElement_def measure_bbox_def body_appendChild_def
      split: option.splits)

text \<open>Neither the stroke width nor the justification reaches the browser.\<close>

lemma measurement_step_style:
  "measurement_step getBBox (this\<lparr>style := (style this)\<lparr>strokeWidth := s\<rparr>\<rparr>) document
     = measurement_step getBBox this document"
  "measurement_step getBBox (this\<lparr>style := (style this)\<lparr>justification := j\<rparr>\<rparr>) document
     = measurement_step getBBox this document"
  by (simp_all add: measurement_step_cases hiddenSpan_def svgOf_def spanStyleOf_def
      split: option.splits)

lemma getDrawnTextSize_success:
  assumes "measurement_step getBBox this document = Inr bbox"
  shows "fst (getDrawnTextSize getTextWidth getBBox this document) =
     Inr \<lparr>rect_x = bbox_x bbox - strokeWidth (style this) / 2
                 - (if justification (style this) = ''left'' then 0
                    else if justification (style this) = ''center''
                    then getTextWidth (fontStyle (style this)) (lines this) / 2
                    else getTextWidth (fontStyle (style this)) (lines this)),
          rect_y = bbox_y bbox - strokeWidth (style this) / 2,
          rect_width = bbox_width bbox + strokeWidth (style this) + 1,
          rect_height = max (bbox_height bbox + strokeWidth (style this))
                            (real (length (lines this)) * leading (style this))\<rparr>"
  using assms
  by (auto simp add: measurement_step_cases getDrawnTextSize_def createElement_def
      try_finally_def measure_bbox_def body_appendChild_def body_removeChild_def Let_def
      split: option.splits sum.splits prod.splits)

lemma getDrawnTextSize_failure:
  assumes "measurement_step getBBox this document = Inl e"
  shows "fst (getDrawnTextSize getTextWidth getBBox this document) = Inl e"
  using assms
  by (auto simp add: measurement_step_cases getDrawnTextSize_def createElement_def
      try_finally_def measure_bbox_def body_appendChild_def body_removeChild_def Let_def
      split: option.splits sum.splits prod.splits)

lemma getDrawnTextSize_attached:
  "attached (snd (getDrawnTextSize getTextWidth getBBox this document)) =
     attached document - {next_node document}"
  by (auto simp add: attached_def getDrawnTextSize_def createElement_def try_finally_def
      measure_bbox_def body_appendChild_def body_removeChild_def Let_def remove1_append
      split: option.splits sum.splits prod.splits)

text \<open>On a document whose body does not hold the identity of the next element, the
  children of the body are afterwards what they were.\<close>

lemma getDrawnTextSize_body:
  assumes "body document = Some children" and "next_node document \<notin> set children"
  shows "body (snd (getDrawnTextSize getTextWidth getBBox this document)) = Some children"
  using assms
  by (auto simp add: getDrawnTextSize_def createElement_def try_finally_def
      measure_bbox_def body_appendChild_def body_removeChild_def Let_def remove1_append
      filter_id_conv
      split: option.splits sum.splits prod.splits)

lemma example_measurement:
  "measurement_step example_host
     (example_text\<lparr>style := example_style\<lparr>strokeWidth := s, justification := j, leading := l\<rparr>\<rparr>)
     example_document
   = Inr \<lparr>bbox_x = 0, bbox_y = - 9, bbox_width = 20, bbox_height = 10\<rparr>"
  by (simp add: measurement_step_cases example_defs)

subsection \<open>The loop over the lines\<close>

lemma drawLine_ops:
  "ops (drawLine hf hs l amb line ctx) = ops ctx @ spec_line_ops hf hs l amb line"
  by (simp add: drawLine_def spec_line_ops_def set_shadowColor_def fillText_def
      strokeText_def ctx_translate_def)

lemma drawLines_ops:
  "ops (drawLines hf hs l amb lines' ctx)
     = ops ctx @ concat (map (spec_line_ops hf hs l amb) lines')"
  by (induction lines' arbitrary: ctx) (simp_all add: drawLine_ops)

lemma spec_line_ops_shadowed:
  "length (filter shadowed (spec_line_ops hf hs l amb line)) \<le> 1"
  by (simp add: spec_line_ops_def)

subsection \<open>Bounds from font metrics\<close>

text \<open>
  C1. The bounds estimated from font metrics are the rectangle
  \<open>(x, y, width, height)\<close> where \<open>width\<close> is the paragraph width measured by the view,
  \<open>x\<close> is \<open>0\<close> for the justification \<open>left\<close>, \<open>- width\<close> for \<open>right\<close> and \<open>- width / 2\<close>
  for \<open>center\<close>, \<open>y\<close> is \<open>- 0.75 * leading\<close> when there is at least one line and \<open>0\<close>
  when there is none, and \<open>height\<close> is the number of lines times the leading.
\<close>

theorem getMeasuredTextSize_rectangle:
  fixes getTextWidth :: View and this :: PointText
  defines "r \<equiv> getMeasuredTextSize getTextWidth this"
    and "w \<equiv> getTextWidth (fontStyle (style this)) (lines this)"
    and "j \<equiv> justification (style this)"
  shows "rect_width r = w
    \<and> (j = ''left'' \<longrightarrow> rect_x r = 0)
    \<and> (j = ''right'' \<longrightarrow> rect_x r = - w)
    \<and> (j = ''center'' \<longrightarrow> rect_x r = - w / 2)
    \<and> (lines this \<noteq> [] \<longrightarrow> rect_y r = - 0.75 * leading (style this))
    \<and> (lines this = [] \<longrightarrow> rect_y r = 0)
    \<and> rect_height r = real (length (lines this)) * leading (style this)"
  unfolding r_def w_def j_def getMeasuredTextSize_def Let_def
  by simp

theorem getMeasuredTextSize_rectangle_witness:
  "justification (style example_text) = ''left'' \<and> lines example_text \<noteq> []
   \<and> rect_x (getMeasuredTextSize example_view example_text) = 0
   \<and> rect_y (getMeasuredTextSize example_view example_text) = - 9
   \<and> rect_width (getMeasuredTextSize example_view example_text) = 20
   \<and> rect_height (getMeasuredTextSize example_view example_text) = 12
   \<and> justification (style (example_text\<lparr>style := example_style\<lparr>justification := ''right''\<rparr>\<rparr>))
       = ''right''
   \<and> rect_x (getMeasuredTextSize example_view
        (example_text\<lparr>style := example_style\<lparr>justification := ''right''\<rparr>\<rparr>)) = - 20
   \<and> justification (style (example_text\<lparr>style := example_style\<lparr>justification := ''center''\<rparr>\<rparr>))
       = ''center''
   \<and> rect_x (getMeasuredTextSize example_view
        (example_text\<lparr>style := example_style\<lparr>justification := ''center''\<rparr>\<rparr>)) = - 10
   \<and> lines (example_text\<lparr>lines := []\<rparr>) = []
   \<and> rect_y (getMeasuredTextSize example_view (example_text\<lparr>lines := []\<rparr>)) = 0"
  using getMeasuredTextSize_rectangle [of example_view example_text]
    getMeasuredTextSize_rectangle [of example_view
      "example_text\<lparr>style := example_style\<lparr>justification := ''right''\<rparr>\<rparr>"]
    getMeasuredTextSize_rectangle [of example_view
      "example_text\<lparr>style := example_style\<lparr>justification := ''center''\<rparr>\<rparr>"]
    getMeasuredTextSize_rectangle [of example_view "example_text\<lparr>lines := []\<rparr>"]
  by (simp add: example_defs)

subsection \<open>Bounds from a rendering\<close>

text \<open>
  C2. When the measurement step yields the box \<open>bbox\<close>, \<open>getDrawnTextSize\<close> returns the
  box grown by half the stroke width on each side (\<open>x\<close> and \<open>y\<close> less the half stroke,
  \<open>width\<close> and \<open>height\<close> plus twice the half stroke), with \<open>x\<close> shifted by the
  justification correction taken from the paragraph width of the font metrics (nothing
  for \<open>left\<close>, the width for \<open>right\<close>, half the width for \<open>center\<close>), the width one unit
  larger, and the height no smaller than the number of lines times the leading.
\<close>

theorem getDrawnTextSize_rectangle:
  fixes getTextWidth :: View and getBBox :: Host and this :: PointText
  defines "w \<equiv> getTextWidth (fontStyle (style this)) (lines this)"
    and "j \<equiv> justification (style this)"
    and "halfStroke \<equiv> strokeWidth (style this) / 2"
  assumes "measurement_step getBBox this document = Inr bbox"
  shows "\<exists>r. fst (getDrawnTextSize getTextWidth getBBox this document) = Inr r
    \<and> (j = ''left'' \<longrightarrow> rect_x r = bbox_x bbox - halfStroke)
    \<and> (j = ''right'' \<longrightarrow> rect_x r = bbox_x bbox - halfStroke - w)
    \<and> (j = ''center'' \<longrightarrow> rect_x r = bbox_x bbox - halfStroke - w / 2)
    \<and> rect_y r = bbox_y bbox - halfStroke
    \<and> rect_width r = (bbox_width bbox + 2 * halfStroke) + 1
    \<and> rect_height r = max (bbox_height bbox + 2 * halfStroke)
                           (real (length (lines this)) * leading (style this))"
  unfolding w_def j_def halfStroke_def
  by (simp add: getDrawnTextSize_success [OF assms(4)])

theorem getDrawnTextSize_rectangle_witness:
  "measurement_step example_host
      (example_text\<lparr>style := example_style\<lparr>strokeWidth := 2, justification := ''center'', leading := 12\<rparr>\<rparr>)
      example_document
     = Inr \<lparr>bbox_x = 0, bbox_y = - 9, bbox_width = 20, bbox_height = 10\<rparr>
   \<and> (\<exists>r. fst (getDrawnTextSize example_view example_host
         (example_text\<lparr>style := example_style\<lparr>strokeWidth := 2, justification := ''center'', leading := 12\<rparr>\<rparr>)
         example_document) = Inr r
        \<and> rect_x r = - 11 \<and> rect_y r = - 10 \<and> rect_width r = 23 \<and> rect_height r = 12)
   \<and> (\<exists>r. fst (getDrawnTextSize example_view example_host
         (example_text\<lparr>style := example_style\<lparr>strokeWidth := 2, justification := ''right'', leading := 12\<rparr>\<rparr>)
         example_document) = Inr r
        \<and> rect_x r = - 21)
   \<and> (\<exists>r. fst (getDrawnTextSize example_view example_host
         (example_text\<lparr>style := example_style\<lparr>strokeWidth := 2, justification := ''left'', leading := 12\<rparr>\<rparr>)
         example_document) = Inr r
        \<and> rect_x r = - 1)"
  using
    getDrawnTextSize_rectangle [OF example_measurement [where s = 2 and j = "''center''" and l = 12], of example_view]
    getDrawnTextSize_rectangle [OF example_measurement [where s = 2 and j = "''right''" and l = 12], of example_view]
    getDrawnTextSize_rectangle [OF example_measurement [where s = 2 and j = "''left''" and l = 12], of example_view]
    example_measurement [where s = 2 and j = "''center''" and l = 12]
  by (auto simp add: example_defs)

text \<open>
  C3. With everything else fixed, the measurement step yields the same box for every
  stroke width, and changing the stroke width from \<open>0\<close> to \<open>s > 0\<close> changes the drawn bounds
  as follows. The width is \<open>(bbox.width + (s / 2) * 2) + 1\<close> in place of
  \<open>(bbox.width + (0 / 2) * 2) + 1\<close>: the sum has \<open>s\<close> more in it, and the width is never
  smaller. The height is \<open>max (bbox.height + (s / 2) * 2) (numLines * leading)\<close> in place of
  \<open>max (bbox.height + (0 / 2) * 2) (numLines * leading)\<close> and is never smaller: where the
  measured box is at least as high as the number of lines times the leading, the height
  is the box's height with the stroke width added to it; where the box with the stroke
  width added is still no higher than the number of lines times the leading, the height
  does not change at all. Each equation gives the expression the source computes, so
  none of them says that a difference of two rounded sums is \<open>s\<close> itself. The
  counterexample is a one-line text with a leading of \<open>12\<close> and a measured box \<open>10\<close> high:
  its height is \<open>12\<close> for the stroke widths \<open>0\<close> and \<open>1\<close> alike.
\<close>

theorem strokeWidth_height_counterexample:
  "fst (getDrawnTextSize example_view example_host
          (example_text\<lparr>style := (style example_text)\<lparr>strokeWidth := 0\<rparr>\<rparr>) example_document)
     = Inr \<lparr>rect_x = 0, rect_y = - 9, rect_width = 21, rect_height = 12\<rparr>
   \<and> fst (getDrawnTextSize example_view example_host
          (example_text\<lparr>style := (style example_text)\<lparr>strokeWidth := 1\<rparr>\<rparr>) example_document)
     = Inr \<lparr>rect_x = - 0.5, rect_y = - 9.5, rect_width = 22, rect_height = 12\<rparr>
   \<and> (12 :: real) \<noteq> 12 + 1"
  by (simp add: getDrawnTextSize_success measurement_step_cases example_defs)

theorem strokeWidth_grows_drawn_bounds:
  fixes this :: PointText and s :: real
  defines "this0 \<equiv> this\<lparr>style := (style this)\<lparr>strokeWidth := 0\<rparr>\<rparr>"
    and "thiss \<equiv> this\<lparr>style := (style this)\<lparr>strokeWidth := s\<rparr>\<rparr>"
    and "minHeight \<equiv> real (length (lines this)) * leading (style this)"
  assumes "0 < s"
    and "measurement_step getBBox this document = Inr bbox"
  shows "\<exists>r0 rs.
      fst (getDrawnTextSize getTextWidth getBBox this0 document) = Inr r0
    \<and> fst (getDrawnTextSize getTextWidth getBBox thiss document) = Inr rs
    \<and> rect_width r0 = bbox_width bbox + 0 / 2 * 2 + 1
    \<and> rect_width rs = bbox_width bbox + s / 2 * 2 + 1
    \<and> rect_width r0 \<le> rect_width rs
    \<and> rect_height r0 = max (bbox_height bbox + 0 / 2 * 2) minHeight
    \<and> rect_height rs = max (bbox_height bbox + s / 2 * 2) minHeight
    \<and> rect_height r0 \<le> rect_height rs
    \<and> (minHeight \<le> bbox_height bbox \<longrightarrow>
          rect_height r0 = bbox_height bbox + 0 / 2 * 2
        \<and> rect_height rs = bbox_height bbox + s / 2 * 2)
    \<and> (bbox_height bbox + s / 2 * 2 \<le> minHeight \<longrightarrow> rect_height rs = rect_height r0)"
proof -
  have m0: "measurement_step getBBox this0 document = Inr bbox"
    and ms: "measurement_step getBBox thiss document = Inr bbox"
    using assms(5) by (simp_all add: this0_def thiss_def measurement_step_style)
  have sw: "strokeWidth (style this0) = 0" "strokeWidth (style thiss) = s"
    and same: "lines this0 = lines this" "lines thiss = lines this"
      "leading (style this0) = leading (style this)"
      "leading (style thiss) = leading (style this)"
    by (simp_all add: this0_def thiss_def)
  show ?thesis
    unfolding getDrawnTextSize_success [OF m0] getDrawnTextSize_success [OF ms]
    using \<open>0 < s\<close> by (simp add: sw same minHeight_def max_def)
qed

theorem strokeWidth_grows_drawn_bounds_witness:
  "(0 :: real) < 1
   \<and> measurement_step example_host
        (example_text\<lparr>style := example_style\<lparr>strokeWidth := 0, justification := ''left'', leading := 12\<rparr>\<rparr>)
        example_document
      = Inr \<lparr>bbox_x = 0, bbox_y = - 9, bbox_width = 20, bbox_height = 10\<rparr>
   \<and> (10 :: real) + 1 / 2 * 2 \<le> real (length [''AB'']) * 12
   \<and> (\<exists>r0 rs.
        fst (getDrawnTextSize example_view example_host
              (example_text\<lparr>style := example_style\<lparr>strokeWidth := 0, justification := ''left'', leading := 12\<rparr>\<rparr>)
              example_document) = Inr r0
      \<and> fst (getDrawnTextSize example_view example_host
              (example_text\<lparr>style := example_style\<lparr>strokeWidth := 1, justification := ''left'', leading := 12\<rparr>\<rparr>)
              example_document) = Inr rs
      \<and> rect_width r0 = 21 \<and> rect_width rs = 22
      \<and> rect_height r0 = 12 \<and> rect_height rs = 12)
   \<and> (0 :: real) < 3
   \<and> measurement_step example_host
        (example_text\<lparr>style := example_style\<lparr>strokeWidth := 0, justification := ''left'', leading := 8\<rparr>\<rparr>)
        example_document
      = Inr \<lparr>bbox_x = 0, bbox_y = - 9, bbox_width = 20, bbox_height = 10\<rparr>
   \<and> real (length [''AB'']) * 8 \<le> (10 :: real)
   \<and> (\<exists>r0 rs.
        fst (getDrawnTextSize example_view example_host
              (example_text\<lparr>style := example_style\<lparr>strokeWidth := 0, justification := ''left'', leading := 8\<rparr>\<rparr>)
              example_document) = Inr r0
      \<and> fst (getDrawnTextSize example_view example_host
              (example_text\<lparr>style := example_style\<lparr>strokeWidth := 3, justification := ''left'', leading := 8\<rparr>\<rparr>)
              example_document) = Inr rs
      \<and> rect_width r0 = 21 \<and> rect_width rs = 24
      \<and> rect_height r0 = 10 \<and> rect_height rs = 13)"
proof -
  have p1: "(0 :: real) < 1" and p3: "(0 :: real) < 3" by simp_all
  note m12 = example_measurement [where s = 0 and j = "''left''" and l = 12]
  note m8 = example_measurement [where s = 0 and j = "''left''" and l = 8]
  from strokeWidth_grows_drawn_bounds [OF p1 m12, of example_view]
    strokeWidth_grows_drawn_bounds [OF p3 m8, of example_view] m12 m8
  show ?thesis by (auto simp add: example_defs)
qed

text \<open>
  C4. The hidden element, which is created with the identity \<open>next_node document\<close>, is
  detached from the body on every path out of \<open>getDrawnTextSize\<close>: afterwards the body
  holds the children it held before and not the element, whether the measurement step
  yielded a box or threw. An error of the
  measurement step is the result of \<open>getDrawnTextSize\<close>; the result is then never the
  estimate from font metrics.
\<close>

theorem getDrawnTextSize_releases_host:
  fixes getTextWidth :: View and getBBox :: Host and this :: PointText
    and document :: Document
  defines "outcome \<equiv> getDrawnTextSize getTextWidth getBBox this document"
  shows "next_node document \<notin> attached (snd outcome)
    \<and> attached (snd outcome) = attached document - {next_node document}
    \<and> (\<forall>e. measurement_step getBBox this document = Inl e \<longrightarrow>
          fst outcome = Inl e
          \<and> fst outcome \<noteq> Inr (getMeasuredTextSize getTextWidth this))
    \<and> (\<forall>bbox. measurement_step getBBox this document = Inr bbox \<longrightarrow>
          (\<exists>r. fst outcome = Inr r))"
  unfolding outcome_def
  by (simp add: getDrawnTextSize_attached getDrawnTextSize_failure getDrawnTextSize_success)

theorem getDrawnTextSize_releases_host_witness:
  "measurement_step failing_host example_text example_document = Inl (HostError ''getBBox'')
   \<and> fst (getDrawnTextSize example_view failing_host example_text example_document)
        = Inl (HostError ''getBBox'')
   \<and> 2 \<notin> attached (snd (getDrawnTextSize example_view failing_host example_text example_document))
   \<and> (\<exists>bbox. measurement_step example_host example_text example_document = Inr bbox)
   \<and> (\<exists>r. fst (getDrawnTextSize example_view example_host example_text example_document) = Inr r)
   \<and> 2 \<notin> attached (snd (getDrawnTextSize example_view example_host example_text example_document))"
proof -
  have f: "measurement_step failing_host example_text example_document
      = Inl (HostError ''getBBox'')"
    by (simp add: measurement_step_cases example_defs)
  have m: "measurement_step example_host example_text example_document
      = Inr \<lparr>bbox_x = 0, bbox_y = - 9, bbox_width = 20, bbox_height = 10\<rparr>"
    by (simp add: measurement_step_cases example_defs)
  have n: "next_node example_document = 2"
    by (simp add: example_document_def)
  from getDrawnTextSize_releases_host [where getTextWidth = example_view
      and getBBox = failing_host and this = example_text and document = example_document]
    getDrawnTextSize_releases_host [where getTextWidth = example_view
      and getBBox = example_host and this = example_text and document = example_document]
    f m n
  show ?thesis by simp
qed

subsection \<open>The anchor point\<close>

text \<open>
  C5. \<open>setPoint p\<close> translates the item by \<open>p\<close> less the current translation: the linear
  part of the transform (rotation and scale) is what it was, the translation moves by
  that difference, and \<open>getPoint\<close> right afterwards gives \<open>p\<close>. Content, lines and style
  are untouched. Over the reals the equality is exact.
\<close>

theorem setPoint_moves_anchor:
  fixes p :: Point and this :: PointText and self :: ref
  defines "moved \<equiv> setPoint p this"
  shows "m_a (matrix moved) = m_a (matrix this) \<and> m_b (matrix moved) = m_b (matrix this)
    \<and> m_c (matrix moved) = m_c (matrix this) \<and> m_d (matrix moved) = m_d (matrix this)
    \<and> m_tx (matrix moved) = m_tx (matrix this) + (pt_x p - m_tx (matrix this))
    \<and> m_ty (matrix moved) = m_ty (matrix this) + (pt_y p - m_ty (matrix this))
    \<and> lp_x (getPoint self moved) = pt_x p \<and> lp_y (getPoint self moved) = pt_y p
    \<and> content moved = content this \<and> lines moved = lines this \<and> style moved = style this"
  by (simp add: moved_def setPoint_def translate_def subtract_def getTranslation_def
      getPoint_def)

subsection \<open>Unknown justifications\<close>

text \<open>
  C6. A justification that is none of \<open>left\<close>, \<open>center\<close> and \<open>right\<close> is treated by both
  estimators as \<open>right\<close>, not as \<open>left\<close>: both return what they return for \<open>right\<close>, the
  horizontal offset is the whole paragraph width, and the value causes no failure (the
  drawn bounds are a rectangle whenever the measurement step yields a box). The
  counterexample is the justification \<open>justify\<close> on a text twenty units wide: \<open>x\<close> is
  \<open>- 20\<close> in both estimates, where \<open>left\<close> gives \<open>0\<close>.
\<close>

theorem unknown_justification_counterexample:
  "''justify'' \<notin> {''left'', ''center'', ''right''}
   \<and> rect_x (getMeasuredTextSize example_view
         (example_text\<lparr>style := (style example_text)\<lparr>justification := ''justify''\<rparr>\<rparr>)) = - 20
   \<and> rect_x (getMeasuredTextSize example_view
         (example_text\<lparr>style := (style example_text)\<lparr>justification := ''left''\<rparr>\<rparr>)) = 0
   \<and> fst (getDrawnTextSize example_view example_host
         (example_text\<lparr>style := (style example_text)\<lparr>justification := ''justify''\<rparr>\<rparr>)
         example_document)
       = Inr \<lparr>rect_x = - 20, rect_y = - 9, rect_width = 21, rect_height = 12\<rparr>
   \<and> fst (getDrawnTextSize example_view example_host
         (example_text\<lparr>style := (style example_text)\<lparr>justification := ''left''\<rparr>\<rparr>)
         example_document)
       = Inr \<lparr>rect_x = 0, rect_y = - 9, rect_width = 21, rect_height = 12\<rparr>"
  by (simp add: getDrawnTextSize_success measurement_step_cases getMeasuredTextSize_def
      example_defs)

theorem unknown_justification_as_right:
  fixes getTextWidth :: View and getBBox :: Host and this :: PointText
    and document :: Document and j :: string
  defines "unknown \<equiv> this\<lparr>style := (style this)\<lparr>justification := j\<rparr>\<rparr>"
    and "right \<equiv> this\<lparr>style := (style this)\<lparr>justification := ''right''\<rparr>\<rparr>"
  assumes "j \<notin> {''left'', ''center'', ''right''}"
  shows "getMeasuredTextSize getTextWidth unknown = getMeasuredTextSize getTextWidth right
    \<and> rect_x (getMeasuredTextSize getTextWidth unknown)
        = - getTextWidth (fontStyle (style this)) (lines this)
    \<and> getDrawnTextSize getTextWidth getBBox unknown document
        = getDrawnTextSize getTextWidth getBBox right document
    \<and> (\<forall>bbox. measurement_step getBBox this document = Inr bbox \<longrightarrow>
          (\<exists>r. fst (getDrawnTextSize getTextWidth getBBox unknown document) = Inr r
             \<and> rect_x r = bbox_x bbox - strokeWidth (style this) / 2
                           - getTextWidth (fontStyle (style this)) (lines this)))"
proof -
  have j: "j \<noteq> ''left''" "j \<noteq> ''center''"
    using assms(3) by simp_all
  have measured:
    "getMeasuredTextSize getTextWidth unknown = getMeasuredTextSize getTextWidth right"
    using j by (simp add: unknown_def right_def getMeasuredTextSize_def)
  have x: "rect_x (getMeasuredTextSize getTextWidth unknown)
        = - getTextWidth (fontStyle (style this)) (lines this)"
    using j by (simp add: unknown_def getMeasuredTextSize_def Let_def)
  have span: "hiddenSpan unknown = hiddenSpan right"
    by (simp add: unknown_def right_def hiddenSpan_def svgOf_def spanStyleOf_def fun_eq_iff)
  have drawn: "getDrawnTextSize getTextWidth getBBox unknown document
        = getDrawnTextSize getTextWidth getBBox right document"
    unfolding getDrawnTextSize_def span
    using j by (simp add: unknown_def right_def Let_def split: prod.splits sum.splits)
  have step: "\<exists>r. fst (getDrawnTextSize getTextWidth getBBox unknown document) = Inr r
             \<and> rect_x r = bbox_x bbox - strokeWidth (style this) / 2
                           - getTextWidth (fontStyle (style this)) (lines this)"
    if "measurement_step getBBox this document = Inr bbox" for bbox
  proof -
    have "measurement_step getBBox unknown document = Inr bbox"
      using that by (simp add: unknown_def measurement_step_style)
    from getDrawnTextSize_success [OF this, of getTextWidth] j
    show ?thesis by (simp add: unknown_def)
  qed
  from measured x drawn step show ?thesis by blast
qed

theorem unknown_justification_as_right_witness:
  "''justify'' \<notin> {''left'', ''center'', ''right''}
   \<and> measurement_step example_host example_text example_document
      = Inr \<lparr>bbox_x = 0, bbox_y = - 9, bbox_width = 20, bbox_height = 10\<rparr>
   \<and> rect_x (getMeasuredTextSize example_view
         (example_text\<lparr>style := (style example_text)\<lparr>justification := ''justify''\<rparr>\<rparr>)) = - 20
   \<and> (\<exists>r. fst (getDrawnTextSize example_view example_host
               (example_text\<lparr>style := (style example_text)\<lparr>justification := ''justify''\<rparr>\<rparr>)
               example_document) = Inr r
          \<and> rect_x r = - 20)"
proof -
  have u: "''justify'' \<notin> {''left'', ''center'', ''right''}" by simp
  have m: "measurement_step example_host example_text example_document
      = Inr \<lparr>bbox_x = 0, bbox_y = - 9, bbox_width = 20, bbox_height = 10\<rparr>"
    by (simp add: measurement_step_cases example_defs)
  have w: "example_view (fontStyle (style example_text)) (lines example_text) = 20"
    "strokeWidth (style example_text) = 0"
    by (simp_all add: example_defs)
  note t = unknown_justification_as_right [OF u, where getTextWidth = example_view
      and getBBox = example_host and this = example_text and document = example_document]
  from t have a: "rect_x (getMeasuredTextSize example_view
         (example_text\<lparr>style := (style example_text)\<lparr>justification := ''justify''\<rparr>\<rparr>))
       = - example_view (fontStyle (style example_text)) (lines example_text)"
    by blast
  from t m have b: "\<exists>r. fst (getDrawnTextSize example_view example_host
               (example_text\<lparr>style := (style example_text)\<lparr>justification := ''justify''\<rparr>\<rparr>)
               example_document) = Inr r
          \<and> rect_x r = bbox_x \<lparr>bbox_x = 0, bbox_y = - 9, bbox_width = 20, bbox_height = 10\<rparr>
               - strokeWidth (style example_text) / 2
               - example_view (fontStyle (style example_text)) (lines example_text)"
    by blast
  from u m a b show ?thesis by (simp add: w)
qed

subsection \<open>Drawing\<close>

text \<open>
  C7. When the content is not empty, \<open>draw\<close> performs on the styled surface, after
  setting the font and the alignment, exactly the operations of the rule for one line,
  line after line in order: the ambient shadow is restored before the first paint
  operation of the line; with a fill paint the filled glyphs are drawn under the
  ambient shadow and the shadow is cleared to transparent right after, before any
  stroke; the stroke of a line that has a fill is drawn under the transparent shadow.
  So at most one paint operation of a line is drawn over a shadow, and with a fill
  paint no stroke is.
\<close>

theorem draw_shadow_once_per_line:
  fixes this :: PointText and ctx :: Context2D
    and setStyles :: "Context2D \<Rightarrow> 'p \<Rightarrow> 'm \<Rightarrow> Context2D" and param :: 'p
    and viewMatrix :: 'm
  defines "styled \<equiv> setStyles ctx param viewMatrix"
  defines "ambient \<equiv> shadowColor styled"
  defines "per_line \<equiv> spec_line_ops (hasFill (style this)) (hasStroke (style this))
                         (leading (style this)) ambient"
  assumes "content this \<noteq> []"
  shows "ops (draw setStyles this ctx param viewMatrix)
       = ops styled
         @ [SetFont (fontStyle (style this)), SetTextAlign (justification (style this))]
         @ concat (map per_line (lines this))
    \<and> (\<forall>line \<in> set (lines this). length (filter shadowed (per_line line)) \<le> 1)
    \<and> (hasFill (style this) \<longrightarrow>
         (\<forall>line \<in> set (lines this). \<forall>l x y c.
            StrokeText l x y c \<in> set (per_line line) \<longrightarrow> c = ''rgba(0,0,0,0)''))"
proof -
  have "ops (draw setStyles this ctx param viewMatrix)
       = ops styled
         @ [SetFont (fontStyle (style this)), SetTextAlign (justification (style this))]
         @ concat (map per_line (lines this))"
    using assms(4)
    by (simp add: draw_def Let_def drawLines_ops styled_def ambient_def per_line_def
        set_font_def set_textAlign_def)
  moreover have "\<forall>line \<in> set (lines this). length (filter shadowed (per_line line)) \<le> 1"
    unfolding per_line_def using spec_line_ops_shadowed by blast
  moreover have "hasFill (style this) \<longrightarrow>
         (\<forall>line \<in> set (lines this). \<forall>l x y c.
            StrokeText l x y c \<in> set (per_line line) \<longrightarrow> c = ''rgba(0,0,0,0)'')"
    by (simp add: per_line_def spec_line_ops_def)
  ultimately show ?thesis by blast
qed

theorem draw_shadow_once_per_line_witness:
  "content two_lines \<noteq> [] \<and> hasFill (style two_lines) \<and> ''AB'' \<in> set (lines two_lines)
   \<and> ops (draw example_setStyles two_lines example_ctx () ())
     = [SetShadowColor ''black'', SetFont ''normal 10px sans-serif'', SetTextAlign ''left'',
        SetShadowColor ''black'', FillText ''AB'' 0 0 ''black'',
        SetShadowColor ''rgba(0,0,0,0)'', StrokeText ''AB'' 0 0 ''rgba(0,0,0,0)'',
        Translate 0 12,
        SetShadowColor ''black'', FillText ''CD'' 0 0 ''black'',
        SetShadowColor ''rgba(0,0,0,0)'', StrokeText ''CD'' 0 0 ''rgba(0,0,0,0)'',
        Translate 0 12]"
proof -
  have c: "content two_lines \<noteq> []"
    by (simp add: two_lines_def)
  from draw_shadow_once_per_line [OF c, of example_setStyles example_ctx "()" "()"] c
  show ?thesis
    by (simp add: two_lines_def example_defs example_setStyles_def example_ctx_def
        set_shadowColor_def spec_line_ops_def)
qed

subsection \<open>Hit testing\<close>

text \<open>
  C8. \<open>hitTestSelf\<close> returns a hit result of type \<open>fill\<close> on the item exactly when fill
  testing is requested, the item has a fill or the caller tests unfilled paths, and the
  item contains the point; otherwise it returns nothing. A query for strokes only
  returns nothing.
\<close>

theorem hitTestSelf_fill_only:
  fixes options :: HitOptions and this :: PointText and point :: Point
    and contains :: "PointText \<Rightarrow> Point \<Rightarrow> bool" and self :: ref
  defines "hit \<equiv> opt_fill options \<and> (hasFill (style this) \<or> hitUnfilledPaths options)
                   \<and> contains this point"
  shows "(hitTestSelf contains self this point options = Some (HitResult ''fill'' self)) = hit
    \<and> (hitTestSelf contains self this point options = None) = (\<not> hit)
    \<and> hitTestSelf contains self this point (options\<lparr>opt_fill := False, opt_stroke := True\<rparr>)
        = None"
  by (simp add: hit_def hitTestSelf_def)

subsection \<open>The linked point\<close>

text \<open>
  C9. The point \<open>getPoint\<close> returns holds the translation of the transform, a copy made at
  the call, and is linked to the item with \<open>setPoint\<close> as its setter: setting a
  coordinate of the returned point calls \<open>setPoint\<close> of the item with the changed point,
  so it does change the item's transform (the translation becomes that point). The
  transform changes through \<open>setPoint\<close> only, called by the caller or by the point. The
  counterexample sets \<open>x\<close> to \<open>5\<close> on the point of an item anchored at \<open>(3, 4)\<close>: the
  item in the store is not what it was, its translation is at \<open>x = 5\<close>.
\<close>

theorem linked_point_mutation_counterexample:
  "m_tx (matrix example_text) = 3
   \<and> snd (LinkedPoint_setX 5 (getPoint 0 example_text) [0 \<mapsto> example_text]) 0
       \<noteq> Some example_text
   \<and> map_option (\<lambda>this. m_tx (matrix this))
        (snd (LinkedPoint_setX 5 (getPoint 0 example_text) [0 \<mapsto> example_text]) 0) = Some 5"
  by (simp add: LinkedPoint_setX_def notify_owner_def getPoint_def setPoint_def translate_def
      subtract_def getTranslation_def example_defs)

theorem linked_point_routes_through_setPoint:
  assumes "s self = Some this"
  shows "lp_x (getPoint self this) = m_tx (matrix this)
    \<and> lp_y (getPoint self this) = m_ty (matrix this)
    \<and> lp_owner (getPoint self this) = self
    \<and> lp_setter (getPoint self this) = ''setPoint''
    \<and> snd (LinkedPoint_setX v (getPoint self this) s)
        = s(self \<mapsto> setPoint \<lparr>pt_x = v, pt_y = m_ty (matrix this)\<rparr> this)
    \<and> snd (LinkedPoint_setY v (getPoint self this) s)
        = s(self \<mapsto> setPoint \<lparr>pt_x = m_tx (matrix this), pt_y = v\<rparr> this)"
  using assms
  by (simp add: LinkedPoint_setX_def LinkedPoint_setY_def notify_owner_def getPoint_def
      getTranslation_def)

theorem linked_point_routes_through_setPoint_witness:
  "[0 \<mapsto> example_text] 0 = Some example_text
   \<and> snd (LinkedPoint_setX 5 (getPoint 0 example_text) [0 \<mapsto> example_text])
       = [0 \<mapsto> setPoint \<lparr>pt_x = 5, pt_y = 4\<rparr> example_text]"
proof -
  have s: "[0 \<mapsto> example_text] (0 :: ref) = Some example_text" by simp
  have y: "m_ty (matrix example_text) = 4" by (simp add: example_defs)
  from linked_point_routes_through_setPoint [where s = "[0 \<mapsto> example_text]"
      and self = 0 and this = example_text and v = 5, OF s] s y
  show ?thesis by simp
qed

subsection \<open>The width of the drawn bounds\<close>

text \<open>
  C10. When the measurement step yields a box, and the box is not of negative width, the
  drawn bounds are at least \<open>1 + strokeWidth\<close> wide: the width is the width of the box
  plus the stroke width plus one. With a stroke width that is not negative the width is
  strictly positive, also for a text without content.
\<close>

theorem getDrawnTextSize_width_positive:
  assumes "measurement_step getBBox this document = Inr bbox"
    and "0 \<le> bbox_width bbox"
  shows "\<exists>r. fst (getDrawnTextSize getTextWidth getBBox this document) = Inr r
    \<and> rect_width r = bbox_width bbox + strokeWidth (style this) + 1
    \<and> 1 + strokeWidth (style this) \<le> rect_width r
    \<and> (0 \<le> strokeWidth (style this) \<longrightarrow> 0 < rect_width r)"
  using assms(2) by (simp add: getDrawnTextSize_success [OF assms(1)])

theorem getDrawnTextSize_width_positive_witness:
  "measurement_step example_host (example_text\<lparr>content := [], lines := []\<rparr>) example_document
      = Inr \<lparr>bbox_x = 0, bbox_y = - 9, bbox_width = 20, bbox_height = 10\<rparr>
   \<and> (0 :: real) \<le> 20
   \<and> 0 \<le> strokeWidth (style (example_text\<lparr>content := [], lines := []\<rparr>))
   \<and> (\<exists>r. fst (getDrawnTextSize example_view example_host
               (example_text\<lparr>content := [], lines := []\<rparr>) example_document) = Inr r
          \<and> 0 < rect_width r)"
proof -
  have m: "measurement_step example_host (example_text\<lparr>content := [], lines := []\<rparr>)
        example_document
      = Inr \<lparr>bbox_x = 0, bbox_y = - 9, bbox_width = 20, bbox_height = 10\<rparr>"
    by (simp add: measurement_step_cases example_defs)
  have b: "0 \<le> bbox_width \<lparr>bbox_x = 0, bbox_y = - 9, bbox_width = 20, bbox_height = 10\<rparr>"
    by simp
  have s: "0 \<le> strokeWidth (style (example_text\<lparr>content := [], lines := []\<rparr>))"
    by (simp add: example_defs)
  from getDrawnTextSize_width_positive [OF m b, of example_view] m s
  show ?thesis by auto
qed

end
